theory Spec2Isabelle
  imports Complex_Main
begin

section \<open>Conventions of the embedding\<close>

text \<open>
  The service in \<^verbatim>\<open>backend/server.py\<close> computes on Python and numpy floats. The embedding
  reads every such number as a \<^typ>\<open>real\<close>: the formulas of the source are kept operator by
  operator, and rounding is outside the model. Where the source divides Python floats,
  a zero divisor raises, which is a branch of the model; where it divides numpy floats, a
  zero divisor gives an infinity or NaN, and the value is then \<open>None\<close>.
  A JSON object is a record whose fields are options (\<open>None\<close> is an absent key), and
  every value that is present has the type the data model gives it. A body with a null
  or mistyped value, on which the source raises a TypeError, is outside the embedding:
  where a theorem says that a result is returned, it says so for bodies of these types.
\<close>

datatype error =
    MissingRequiredParameters   \<comment> \<open>\<^verbatim>\<open>{"error": "Missing required parameters"}\<close>\<close>
  | NoOptionsData               \<comment> \<open>\<^verbatim>\<open>{"error": "No options data found"}\<close>\<close>
  | NoValidOptions              \<comment> \<open>\<^verbatim>\<open>{"error": "No valid options with Greeks found"}\<close>\<close>
  | KeyError string             \<comment> \<open>a missing key, caught and returned as \<^verbatim>\<open>{"error": str(e)}\<close>\<close>
  | InternalError string        \<comment> \<open>an exception that reaches the route handler: HTTP 500\<close>

definition py_truediv :: "real \<Rightarrow> real \<Rightarrow> error + real" where
  "py_truediv a b = (if b = 0 then Inl (InternalError ''ZeroDivisionError'') else Inr (a / b))"

section \<open>Payoff curve engine: \<^verbatim>\<open>calculate_strategy_pnl\<close>\<close>

record leg =
  leg_option_type :: "string option"
  leg_strike :: "real option"
  leg_quantity :: "real option"
  leg_price :: "real option"

record pnl_request =
  req_strategy_type :: "string option"
  req_underlying_price :: "real option"
  req_legs :: "leg list option"
  req_price_range_pct :: "real option"

record point =
  price :: real
  pnl :: real

record pnl_result =
  strategy_type :: string
  underlying_price :: real
  pnl_curve :: "point list"
  max_profit :: real
  max_loss :: real
  breakeven_points :: "real list"
  initial_cost :: real

text \<open>\<^verbatim>\<open>dict.get(key, default)\<close>.\<close>

definition get_default :: "'a option \<Rightarrow> 'a \<Rightarrow> 'a" where
  "get_default v d = (case v of None \<Rightarrow> d | Some x \<Rightarrow> x)"

text \<open>
  \<^verbatim>\<open>np.linspace(start, stop, num)\<close>: \<open>num\<close> samples, the \<open>i\<close>-th at
  \<open>start + i * step\<close> with \<open>step = (stop - start) / (num - 1)\<close>.
\<close>

definition linspace :: "real \<Rightarrow> real \<Rightarrow> nat \<Rightarrow> real list" where
  "linspace start stop num =
     map (\<lambda>i. start + real i * ((stop - start) / real (num - 1))) [0..<num]"

definition option_value_at_expiry :: "string \<Rightarrow> real \<Rightarrow> real \<Rightarrow> real" where
  "option_value_at_expiry option_type strike underlying =
     (if option_type = ''call'' then max 0 (underlying - strike)
      else if option_type = ''put'' then max 0 (strike - underlying)
      else 0)"

text \<open>The first loop over the legs: \<^verbatim>\<open>initial_cost += price * quantity * 100\<close>.\<close>

definition initial_cost_of :: "leg list \<Rightarrow> real" where
  "initial_cost_of ls =
     fold (\<lambda>l acc. acc + get_default (leg_price l) 0 * get_default (leg_quantity l) 0 * 100) ls 0"

text \<open>
  The body of the loop over the sampled prices: \<^verbatim>\<open>total_pnl\<close> starts at
  \<^verbatim>\<open>-initial_cost\<close> and every leg adds \<^verbatim>\<open>value * quantity * 100\<close>.
\<close>

definition total_pnl :: "leg list \<Rightarrow> real \<Rightarrow> real \<Rightarrow> real" where
  "total_pnl ls cost p =
     fold (\<lambda>l acc. acc +
             option_value_at_expiry (get_default (leg_option_type l) '''')
               (get_default (leg_strike l) 0) p
             * get_default (leg_quantity l) 0 * 100)
       ls (- cost)"

definition curve_of :: "leg list \<Rightarrow> real \<Rightarrow> real list \<Rightarrow> point list" where
  "curve_of ls cost prices = map (\<lambda>p. \<lparr>price = p, pnl = total_pnl ls cost p\<rparr>) prices"

text \<open>Python's \<^verbatim>\<open>max\<close> and \<^verbatim>\<open>min\<close> of a list: a ValueError on the empty list.\<close>

definition py_max :: "real list \<Rightarrow> error + real" where
  "py_max xs = (case xs of [] \<Rightarrow> Inl (InternalError ''ValueError'') | x # r \<Rightarrow> Inr (fold max r x))"

definition py_min :: "real list \<Rightarrow> error + real" where
  "py_min xs = (case xs of [] \<Rightarrow> Inl (InternalError ''ValueError'') | x # r \<Rightarrow> Inr (fold min r x))"

text \<open>
  The condition of the breakeven loop on the samples \<open>a = pnl_curve[i-1]\<close> and
  \<open>b = pnl_curve[i]\<close>.
\<close>

definition sign_change :: "point \<Rightarrow> point \<Rightarrow> bool" where
  "sign_change a b \<longleftrightarrow> (pnl a \<le> 0 \<and> pnl b \<ge> 0) \<or> (pnl a \<ge> 0 \<and> pnl b \<le> 0)"

text \<open>
  The breakeven loop, \<^verbatim>\<open>for i in range(1, len(pnl_curve))\<close>, as a recursion over the
  adjacent pairs of the curve. The division is Python's, which raises on a zero divisor.
\<close>

fun breakeven_scan :: "point list \<Rightarrow> error + real list" where
  "breakeven_scan (a # b # rest) =
     (if sign_change a b then
        (if pnl b - pnl a \<noteq> 0 then
           (case py_truediv ((price b - price a) * (- pnl a)) (pnl b - pnl a) of
              Inl e \<Rightarrow> Inl e
            | Inr q \<Rightarrow>
                (case breakeven_scan (b # rest) of
                   Inl e \<Rightarrow> Inl e
                 | Inr bs \<Rightarrow> Inr ((price a + q) # bs)))
         else breakeven_scan (b # rest))
      else breakeven_scan (b # rest))"
| "breakeven_scan _ = Inr []"

text \<open>
  The request is read with \<^verbatim>\<open>request.get\<close>; an absent \<^verbatim>\<open>strategy_type\<close> is \<^verbatim>\<open>None\<close>,
  which the check \<^verbatim>\<open>not strategy_type\<close> treats as it treats the empty string.
\<close>

definition calculate_strategy_pnl :: "pnl_request \<Rightarrow> error + pnl_result" where
  "calculate_strategy_pnl request =
     (let strategy = get_default (req_strategy_type request) [];
          underlying = get_default (req_underlying_price request) 0;
          ls = get_default (req_legs request) [];
          range_pct = get_default (req_price_range_pct request) 20
      in if strategy = [] \<or> underlying = 0 \<or> ls = [] then Inl MissingRequiredParameters
         else
           let min_price = underlying * (1 - range_pct / 100);
               max_price = underlying * (1 + range_pct / 100);
               prices = linspace min_price max_price 50;
               cost = initial_cost_of ls;
               curve = curve_of ls cost prices;
               pnl_values = map pnl curve
           in case py_max pnl_values of
                Inl e \<Rightarrow> Inl e
              | Inr mx \<Rightarrow>
                  (case py_min pnl_values of
                     Inl e \<Rightarrow> Inl e
                   | Inr mn \<Rightarrow>
                       (case breakeven_scan curve of
                          Inl e \<Rightarrow> Inl e
                        | Inr bes \<Rightarrow>
                            Inr \<lparr>strategy_type = strategy, underlying_price = underlying,
                                 pnl_curve = curve, max_profit = mx, max_loss = mn,
                                 breakeven_points = bes, initial_cost = cost\<rparr>)))"

section \<open>Exposure aggregation: \<^verbatim>\<open>calculate_gex\<close> and \<^verbatim>\<open>calculate_dex\<close>\<close>

text \<open>
  One entry of the raw chain. \<open>opt_greeks\<close> is the \<^verbatim>\<open>greeks\<close> dictionary as an association
  list: \<open>None\<close> when the key is absent or null, \<open>Some []\<close> when it is empty; both are
  falsy.
\<close>

record option_entry =
  opt_strike :: "real option"
  opt_option_type :: "string option"
  opt_greeks :: "(string \<times> real) list option"
  opt_open_interest :: "real option"
  opt_volume :: "real option"

text \<open>
  The \<^verbatim>\<open>options\<close> key of the payload: absent, present and falsy (null or an empty
  object), or an object whose \<^verbatim>\<open>option\<close> key, when present, holds the list of entries.
\<close>

datatype options_field =
    OptionsAbsent
  | OptionsFalsy
  | OptionsDict "option_entry list option"

record options_data =
  options :: options_field

record gex_row =
  gex_row_strike :: real
  gex_row_option_type :: string
  gex_row_gamma :: real
  gex_row_open_interest :: real
  gex_row_volume :: real

record dex_row =
  dex_row_strike :: real
  dex_row_option_type :: string
  dex_row_delta :: real
  dex_row_open_interest :: real

record gex_result =
  gex_strikes :: "real list"
  gex_values :: "real list"
  total_gex :: real

record dex_result =
  dex_strikes :: "real list"
  dex_values :: "real list"
  total_dex :: real

text \<open>\<^verbatim>\<open>"greeks" in option and option["greeks"]\<close>.\<close>

definition has_greeks :: "option_entry \<Rightarrow> bool" where
  "has_greeks option \<longleftrightarrow> (case opt_greeks option of None \<Rightarrow> False | Some g \<Rightarrow> g \<noteq> [])"

text \<open>\<^verbatim>\<open>d[key]\<close>: a KeyError when the key is absent.\<close>

definition subscript :: "string \<Rightarrow> 'a option \<Rightarrow> error + 'a" where
  "subscript key v = (case v of None \<Rightarrow> Inl (KeyError key) | Some x \<Rightarrow> Inr x)"

text \<open>The dictionary \<^verbatim>\<open>option_data\<close> that \<^verbatim>\<open>calculate_gex\<close> builds for a kept entry.\<close>

definition gex_option_data :: "option_entry \<Rightarrow> error + gex_row" where
  "gex_option_data option =
     (case subscript ''strike'' (opt_strike option) of
        Inl e \<Rightarrow> Inl e
      | Inr k \<Rightarrow>
          (case subscript ''option_type'' (opt_option_type option) of
             Inl e \<Rightarrow> Inl e
           | Inr t \<Rightarrow>
               Inr \<lparr>gex_row_strike = k, gex_row_option_type = t,
                    gex_row_gamma = get_default (map_of (get_default (opt_greeks option) []) ''gamma'') 0,
                    gex_row_open_interest = get_default (opt_open_interest option) 0,
                    gex_row_volume = get_default (opt_volume option) 0\<rparr>))"

definition dex_option_data :: "option_entry \<Rightarrow> error + dex_row" where
  "dex_option_data option =
     (case subscript ''strike'' (opt_strike option) of
        Inl e \<Rightarrow> Inl e
      | Inr k \<Rightarrow>
          (case subscript ''option_type'' (opt_option_type option) of
             Inl e \<Rightarrow> Inl e
           | Inr t \<Rightarrow>
               Inr \<lparr>dex_row_strike = k, dex_row_option_type = t,
                    dex_row_delta = get_default (map_of (get_default (opt_greeks option) []) ''delta'') 0,
                    dex_row_open_interest = get_default (opt_open_interest option) 0\<rparr>))"

text \<open>
  The loop that fills \<^verbatim>\<open>options_list\<close>: entries without a non-empty greeks object are
  skipped, the others are appended in order; the first KeyError ends the loop.
\<close>

fun gex_options_list :: "option_entry list \<Rightarrow> error + gex_row list" where
  "gex_options_list [] = Inr []"
| "gex_options_list (option # rest) =
     (if has_greeks option then
        (case gex_option_data option of
           Inl e \<Rightarrow> Inl e
         | Inr row \<Rightarrow>
             (case gex_options_list rest of
                Inl e \<Rightarrow> Inl e
              | Inr rows \<Rightarrow> Inr (row # rows)))
      else gex_options_list rest)"

fun dex_options_list :: "option_entry list \<Rightarrow> error + dex_row list" where
  "dex_options_list [] = Inr []"
| "dex_options_list (option # rest) =
     (if has_greeks option then
        (case dex_option_data option of
           Inl e \<Rightarrow> Inl e
         | Inr row \<Rightarrow>
             (case dex_options_list rest of
                Inl e \<Rightarrow> Inl e
              | Inr rows \<Rightarrow> Inr (row # rows)))
      else dex_options_list rest)"

text \<open>
  pandas' \<^verbatim>\<open>df.groupby(key)[col].sum().reset_index()\<close>: one row for every distinct key, the
  keys ascending (\<^verbatim>\<open>sort=True\<close> is the default), the value the sum of the column over the
  rows of that key. The model keeps a key-ordered table and adds the rows one by one.
\<close>

fun group_add :: "real \<Rightarrow> real \<Rightarrow> (real \<times> real) list \<Rightarrow> (real \<times> real) list" where
  "group_add k v [] = [(k, v)]"
| "group_add k v ((k', s) # rest) =
     (if k = k' then (k', s + v) # rest
      else if k < k' then (k, v) # (k', s) # rest
      else (k', s) # group_add k v rest)"

definition groupby_sum :: "(real \<times> real) list \<Rightarrow> (real \<times> real) list" where
  "groupby_sum rows = fold (\<lambda>(k, v) table. group_add k v table) rows []"

text \<open>\<^verbatim>\<open>Series.sum()\<close>.\<close>

definition series_sum :: "real list \<Rightarrow> real" where
  "series_sum xs = fold (\<lambda>x acc. acc + x) xs 0"

definition gex_sign :: "string \<Rightarrow> real" where
  "gex_sign x = (if x = ''call'' then 1 else - 1)"

text \<open>The column \<^verbatim>\<open>df["gex"]\<close> of one row.\<close>

definition gex :: "gex_row \<Rightarrow> real" where
  "gex row = gex_row_gamma row * gex_row_open_interest row * 100 * gex_sign (gex_row_option_type row)"

text \<open>The column \<^verbatim>\<open>df["dex"]\<close> of one row.\<close>

definition dex :: "dex_row \<Rightarrow> real" where
  "dex row = dex_row_delta row * dex_row_open_interest row * 100"

definition gex_by_strike :: "gex_row list \<Rightarrow> (real \<times> real) list" where
  "gex_by_strike rows = groupby_sum (map (\<lambda>row. (gex_row_strike row, gex row)) rows)"

definition dex_by_strike :: "dex_row list \<Rightarrow> (real \<times> real) list" where
  "dex_by_strike rows = groupby_sum (map (\<lambda>row. (dex_row_strike row, dex row)) rows)"

definition calculate_gex :: "options_data \<Rightarrow> error + gex_result" where
  "calculate_gex payload =
     (case options payload of
        OptionsAbsent \<Rightarrow> Inl NoOptionsData
      | OptionsFalsy \<Rightarrow> Inl NoOptionsData
      | OptionsDict entries \<Rightarrow>
          (case subscript ''option'' entries of
             Inl e \<Rightarrow> Inl e
           | Inr es \<Rightarrow>
               (case gex_options_list es of
                  Inl e \<Rightarrow> Inl e
                | Inr rows \<Rightarrow>
                    if rows = [] then Inl NoValidOptions
                    else
                      let table = gex_by_strike rows
                      in Inr \<lparr>gex_strikes = map fst table, gex_values = map snd table,
                              total_gex = series_sum (map snd table)\<rparr>)))"

definition calculate_dex :: "options_data \<Rightarrow> error + dex_result" where
  "calculate_dex payload =
     (case options payload of
        OptionsAbsent \<Rightarrow> Inl NoOptionsData
      | OptionsFalsy \<Rightarrow> Inl NoOptionsData
      | OptionsDict entries \<Rightarrow>
          (case subscript ''option'' entries of
             Inl e \<Rightarrow> Inl e
           | Inr es \<Rightarrow>
               (case dex_options_list es of
                  Inl e \<Rightarrow> Inl e
                | Inr rows \<Rightarrow>
                    if rows = [] then Inl NoValidOptions
                    else
                      let table = dex_by_strike rows
                      in Inr \<lparr>dex_strikes = map fst table, dex_values = map snd table,
                              total_dex = series_sum (map snd table)\<rparr>)))"

section \<open>Backtest runner: the Covered Call branch and the metrics of \<^verbatim>\<open>run_backtest\<close>\<close>

text \<open>
  Of \<^verbatim>\<open>run_backtest\<close> the embedding follows the run of the strategy \<^verbatim>\<open>covered-call\<close>, from
  the data frame \<open>df\<close> of the fetched daily bars on: the Covered Call branch and the
  metrics computed after it. The values read from the frame are numpy floats.
\<close>

record day =
  day_date :: string
  close :: real

text \<open>The ledger entry of the Covered Call branch.\<close>

record trade =
  trade_date :: string
  trade_action :: string
  trade_price :: real
  trade_premium :: real
  trade_capital :: real

text \<open>
  The metrics of the result that the embedding follows. A value that the float computation
  leaves without a finite number (an infinity or NaN) is \<open>None\<close>.
\<close>

record metrics =
  total_return_pct :: "real option"
  annualized_return_pct :: "real option"
  sharpe_ratio :: "real option"

record backtest_result =
  bt_initial_capital :: real
  final_capital :: real
  trade_history :: "trade list"
  bt_metrics :: metrics

text \<open>Python's \<^verbatim>\<open>int(x)\<close> of a float: truncation toward zero.\<close>

definition py_int :: "real \<Rightarrow> int" where
  "py_int x = (if 0 \<le> x then \<lfloor>x\<rfloor> else \<lceil>x\<rceil>)"

text \<open>
  The body of the premium loop, for the index \<open>i\<close>; the state is \<^verbatim>\<open>capital\<close> and
  \<^verbatim>\<open>trade_history\<close>.
\<close>

definition covered_call_step ::
  "day list \<Rightarrow> int \<Rightarrow> nat \<Rightarrow> real \<times> trade list \<Rightarrow> real \<times> trade list" where
  "covered_call_step df position_size i st =
     (let (capital, trades) = st
      in if i mod 30 = 0 then
           let premium = close (df ! i) * 0.02 * real_of_int position_size;
               capital' = capital + premium
           in (capital',
               trades @ [\<lparr>trade_date = day_date (df ! i), trade_action = ''Sell Call'',
                          trade_price = close (df ! i), trade_premium = premium,
                          trade_capital = capital' + close (df ! i) * real_of_int position_size\<rparr>])
         else st)"

text \<open>
  \<^verbatim>\<open>position_size = int(capital / buy_price)\<close>, taken when the investment in 100 shares
  exceeds the capital. On a zero first close the quotient is an infinity, and \<^verbatim>\<open>int\<close> of
  it raises (as the division itself would on Python floats): HTTP 500.
\<close>

definition position_size_of :: "real \<Rightarrow> real \<Rightarrow> error + int" where
  "position_size_of capital buy_price =
     (if buy_price * 100 > capital then
        (if buy_price = 0 then Inl (InternalError ''OverflowError'')
         else Inr (py_int (capital / buy_price)))
      else Inr 100)"

text \<open>
  The Covered Call branch on a non-empty frame: \<^verbatim>\<open>final_capital\<close> and the ledger. The
  loop is \<^verbatim>\<open>for i in range(1, len(df))\<close>.
\<close>

definition covered_call :: "day list \<Rightarrow> real \<Rightarrow> error + real \<times> trade list" where
  "covered_call df initial_capital =
     (let buy_price = close (df ! 0)
      in case position_size_of initial_capital buy_price of
           Inl e \<Rightarrow> Inl e
         | Inr position_size \<Rightarrow>
             let investment = buy_price * real_of_int position_size;
                 capital = initial_capital - investment;
                 (capital', trades) =
                   fold (covered_call_step df position_size) [1..<length df] (capital, []);
                 final_stock_value = close (df ! (length df - 1)) * real_of_int position_size
             in Inr (capital' + final_stock_value, trades))"

text \<open>
  \<^verbatim>\<open>df["close"].pct_change()\<close> followed by \<^verbatim>\<open>dropna()\<close>: the change \<open>b / a - 1\<close> of every
  adjacent pair of closes. numpy does not raise on a zero divisor: \<open>0 / 0\<close> is NaN, which
  \<^verbatim>\<open>dropna\<close> removes, and any other quotient by zero is an infinity, which stays in the
  series; the series is then \<open>None\<close>.
\<close>

fun daily_returns :: "real list \<Rightarrow> real list option" where
  "daily_returns (a # b # rest) =
     (if a = 0 then
        (if b = 0 then daily_returns (b # rest) else None)
      else
        (case daily_returns (b # rest) of
           None \<Rightarrow> None
         | Some rs \<Rightarrow> Some ((b / a - 1) # rs)))"
| "daily_returns _ = Some []"

text \<open>
  \<^verbatim>\<open>Series.std()\<close>, the sample standard deviation (\<^verbatim>\<open>ddof=1\<close>): NaN on fewer than two
  values.
\<close>

definition mean :: "real list \<Rightarrow> real" where
  "mean xs = sum_list xs / real (length xs)"

definition std :: "real list \<Rightarrow> real option" where
  "std xs =
     (if length xs < 2 then None
      else Some (sqrt (sum_list (map (\<lambda>x. (x - mean xs)\<^sup>2) xs) / real (length xs - 1))))"

text \<open>
  The Sharpe ratio of the source, with \<^verbatim>\<open>risk_free_rate = 0.02\<close>. The divisor is a numpy
  float: when it is zero the quotient is an infinity or NaN.
\<close>

definition sharpe :: "real \<Rightarrow> real list option \<Rightarrow> real option" where
  "sharpe annualized_return returns =
     (let risk_free_rate = 0.02
      in case returns of
           None \<Rightarrow> None
         | Some rs \<Rightarrow>
             (case std rs of
                None \<Rightarrow> None
              | Some sd \<Rightarrow>
                  if sd * sqrt 252 = 0 then None
                  else Some ((annualized_return - risk_free_rate) / (sd * sqrt 252))))"

text \<open>
  The metrics computed after the branch. \<^verbatim>\<open>final_capital\<close> is a numpy float, so a zero
  \<^verbatim>\<open>initial_capital\<close> gives an infinity or NaN; the frame is not empty, so \<^verbatim>\<open>365 / days\<close>
  does not divide by zero.
\<close>

definition calculate_metrics :: "day list \<Rightarrow> real \<Rightarrow> real \<Rightarrow> metrics" where
  "calculate_metrics df initial_capital final =
     (if initial_capital = 0 then
        \<lparr>total_return_pct = None, annualized_return_pct = None, sharpe_ratio = None\<rparr>
      else
        let total_return = (final - initial_capital) / initial_capital * 100;
            days = length df;
            annualized_return = total_return * (365 / real days)
        in \<lparr>total_return_pct = Some total_return,
             annualized_return_pct = Some annualized_return,
             sharpe_ratio = sharpe annualized_return (daily_returns (map close df))\<rparr>)"

text \<open>
  The run of \<^verbatim>\<open>run_backtest\<close> for the strategy \<^verbatim>\<open>covered-call\<close> on the frame \<open>df\<close>. The
  frame of an empty list of bars has no \<^verbatim>\<open>close\<close> column, and reading it raises.
\<close>

definition run_backtest_covered_call :: "day list \<Rightarrow> real \<Rightarrow> error + backtest_result" where
  "run_backtest_covered_call df initial_capital =
     (if df = [] then Inl (InternalError ''KeyError'')
      else
        (case covered_call df initial_capital of
           Inl e \<Rightarrow> Inl e
         | Inr (final, trades) \<Rightarrow>
             Inr \<lparr>bt_initial_capital = initial_capital, final_capital = final,
                  trade_history = trades,
                  bt_metrics = calculate_metrics df initial_capital final\<rparr>))"

section \<open>Example inputs\<close>

text \<open>The single long call of the spec: strike 100, premium 2, one contract, underlying 100.\<close>

definition long_call_leg :: leg where
  "long_call_leg = \<lparr>leg_option_type = Some ''call'', leg_strike = Some 100,
                     leg_quantity = Some 1, leg_price = Some 2\<rparr>"

definition long_call_request :: pnl_request where
  "long_call_request = \<lparr>req_strategy_type = Some ''long_call'', req_underlying_price = Some 100,
                         req_legs = Some [long_call_leg], req_price_range_pct = None\<rparr>"

text \<open>Requests with a negative underlying price and with an empty strategy type.\<close>

definition negative_price_request :: pnl_request where
  "negative_price_request = \<lparr>req_strategy_type = Some ''long_call'', req_underlying_price = Some (- 100),
                         req_legs = Some [long_call_leg], req_price_range_pct = None\<rparr>"

definition empty_strategy_request :: pnl_request where
  "empty_strategy_request = \<lparr>req_strategy_type = Some [], req_underlying_price = Some 100,
                         req_legs = Some [long_call_leg], req_price_range_pct = None\<rparr>"



text \<open>
  A curve of five samples whose P&L crosses zero, touches zero, stays at zero and leaves it.
\<close>

definition example_curve :: "point list" where
  "example_curve =
     [\<lparr>price = 0, pnl = - 1\<rparr>, \<lparr>price = 1, pnl = 1\<rparr>, \<lparr>price = 2, pnl = 0\<rparr>,
      \<lparr>price = 3, pnl = 0\<rparr>, \<lparr>price = 4, pnl = 2\<rparr>]"

text \<open>
  A chain of five entries: two with greeks at the strikes 105 and 100, one without greeks,
  one whose greeks lack gamma and that has no open interest, and one with empty greeks.
\<close>

definition example_chain :: "option_entry list" where
  "example_chain =
     [\<lparr>opt_strike = Some 105, opt_option_type = Some ''call'',
       opt_greeks = Some [(''gamma'', 0.02), (''delta'', 0.4)],
       opt_open_interest = Some 10, opt_volume = Some 5\<rparr>,
      \<lparr>opt_strike = Some 100, opt_option_type = Some ''put'',
       opt_greeks = Some [(''gamma'', 0.05), (''delta'', - 0.5)],
       opt_open_interest = Some 20, opt_volume = None\<rparr>,
      \<lparr>opt_strike = Some 100, opt_option_type = Some ''call'',
       opt_greeks = None, opt_open_interest = Some 7, opt_volume = None\<rparr>,
      \<lparr>opt_strike = Some 100, opt_option_type = Some ''call'',
       opt_greeks = Some [(''delta'', 0.5)],
       opt_open_interest = None, opt_volume = None\<rparr>,
      \<lparr>opt_strike = Some 105, opt_option_type = Some ''put'',
       opt_greeks = Some [], opt_open_interest = Some 3, opt_volume = None\<rparr>]"

definition example_payload :: options_data where
  "example_payload = \<lparr>options = OptionsDict (Some example_chain)\<rparr>"

text \<open>Price histories of three days and of sixty-one days.\<close>

definition three_days :: "day list" where
  "three_days = [\<lparr>day_date = ''2024-01-02'', close = 100\<rparr>,
                 \<lparr>day_date = ''2024-01-03'', close = 110\<rparr>,
                 \<lparr>day_date = ''2024-01-04'', close = 99\<rparr>]"

definition sixty_one_days :: "day list" where
  "sixty_one_days = map (\<lambda>i. \<lparr>day_date = ''day'', close = 100 + real i\<rparr>) [0..<61]"

section \<open>Properties of the payoff curve engine\<close>

lemma fold_add_sum_list:
  "fold (\<lambda>l acc. acc + f l) ls (a::real) = a + sum_list (map f ls)"
  by (induction ls arbitrary: a) simp_all

lemma initial_cost_of_sum:
  "initial_cost_of ls =
     (\<Sum>l\<leftarrow>ls. get_default (leg_price l) 0 * get_default (leg_quantity l) 0 * 100)"
  by (simp add: initial_cost_of_def fold_add_sum_list)

lemma total_pnl_sum:
  "total_pnl ls cost p =
     - cost + (\<Sum>l\<leftarrow>ls. option_value_at_expiry (get_default (leg_option_type l) '''')
                          (get_default (leg_strike l) 0) p
                        * get_default (leg_quantity l) 0 * 100)"
  by (simp add: total_pnl_def fold_add_sum_list)

lemma length_linspace: "length (linspace a b n) = n"
  by (simp add: linspace_def)

lemma nth_linspace:
  "i < n \<Longrightarrow> linspace a b n ! i = a + real i * ((b - a) / real (n - 1))"
  by (simp add: linspace_def)

lemma linspace_first: "linspace a b 50 ! 0 = a"
  by (simp add: nth_linspace)

lemma linspace_last: "linspace a b 50 ! 49 = b"
  by (simp add: nth_linspace diff_divide_distrib)

lemma py_max_Max: "xs \<noteq> [] \<Longrightarrow> py_max xs = Inr (Max (set xs))"
  by (cases xs) (simp_all add: py_max_def Max.set_eq_fold [symmetric])

lemma py_min_Min: "xs \<noteq> [] \<Longrightarrow> py_min xs = Inr (Min (set xs))"
  by (cases xs) (simp_all add: py_min_def Min.set_eq_fold [symmetric])

lemma breakeven_scan_total: "\<exists>bs. breakeven_scan c = Inr bs"
  by (induction c rule: breakeven_scan.induct) (auto simp: py_truediv_def)

lemma calculate_strategy_pnl_Inr:
  assumes "s = get_default (req_strategy_type request) []" "s \<noteq> []"
    and "u = get_default (req_underlying_price request) 0" "u \<noteq> 0"
    and "ls = get_default (req_legs request) []" "ls \<noteq> []"
    and "r = get_default (req_price_range_pct request) 20"
    and "c = curve_of ls (initial_cost_of ls) (linspace (u * (1 - r / 100)) (u * (1 + r / 100)) 50)"
  shows "\<exists>bes. breakeven_scan c = Inr bes \<and>
           calculate_strategy_pnl request =
             Inr \<lparr>strategy_type = s, underlying_price = u, pnl_curve = c,
                  max_profit = Max (set (map pnl c)), max_loss = Min (set (map pnl c)),
                  breakeven_points = bes, initial_cost = initial_cost_of ls\<rparr>"
proof -
  obtain bes where b: "breakeven_scan c = Inr bes"
    using breakeven_scan_total by blast
  have ne: "map pnl c \<noteq> []"
    by (simp add: assms(8) curve_of_def linspace_def)
  show ?thesis
    using assms(2,4,6) b py_max_Max [OF ne] py_min_Min [OF ne]
    unfolding assms(1,3,5,7,8)
    by (simp add: calculate_strategy_pnl_def Let_def)
qed

lemma calculate_strategy_pnl_Inl:
  "get_default (req_strategy_type request) [] = [] \<or>
   get_default (req_underlying_price request) 0 = 0 \<or>
   get_default (req_legs request) [] = [] \<Longrightarrow>
   calculate_strategy_pnl request = Inl MissingRequiredParameters"
  by (auto simp add: calculate_strategy_pnl_def Let_def)

text \<open>
  Claim C1. For a request with underlying price \<open>P > 0\<close>, a non-empty list of legs and
  price range \<open>r\<close> (20 when the request gives none), the engine returns a result whenever
  the strategy type is present and not empty, and every result it returns has a curve of
  exactly 50 samples, the \<open>i\<close>-th at \<open>P (1 - r/100) + i * step\<close> with the step a 49th of
  the width of the range, so that the first is \<open>P (1 - r/100)\<close> and the last is
  \<open>P (1 + r/100)\<close>; the P&L of every sample is minus the initial cost plus the sum over
  the legs of intrinsic value times quantity times 100, the initial cost is the sum over
  the legs of entry price times quantity times 100, the intrinsic value is
  \<open>max 0 (p - strike)\<close> for a call and \<open>max 0 (strike - p)\<close> for a put, and the maximal
  profit and loss are the maximum and the minimum of the sampled P&L values.
\<close>

theorem payoff_curve_samples:
  assumes "req_underlying_price request = Some P" and "0 < P"
    and "req_legs request = Some ls" and "ls \<noteq> []"
    and "r = get_default (req_price_range_pct request) 20"
  shows
    "(get_default (req_strategy_type request) [] \<noteq> [] \<longrightarrow>
        (\<exists>res. calculate_strategy_pnl request = Inr res)) \<and>
     (\<forall>res. calculate_strategy_pnl request = Inr res \<longrightarrow>
        length (pnl_curve res) = 50 \<and>
        price (pnl_curve res ! 0) = P * (1 - r / 100) \<and>
        price (pnl_curve res ! 49) = P * (1 + r / 100) \<and>
        (\<forall>i<50. price (pnl_curve res ! i) =
            P * (1 - r / 100) + real i * ((P * (1 + r / 100) - P * (1 - r / 100)) / 49)) \<and>
        initial_cost res =
          (\<Sum>l\<leftarrow>ls. get_default (leg_price l) 0 * get_default (leg_quantity l) 0 * 100) \<and>
        (\<forall>pt\<in>set (pnl_curve res). pnl pt =
            - initial_cost res +
            (\<Sum>l\<leftarrow>ls. option_value_at_expiry (get_default (leg_option_type l) [])
                        (get_default (leg_strike l) 0) (price pt)
                      * get_default (leg_quantity l) 0 * 100)) \<and>
        max_profit res = Max (pnl ` set (pnl_curve res)) \<and>
        max_loss res = Min (pnl ` set (pnl_curve res))) \<and>
     option_value_at_expiry ''call'' k p = max 0 (p - k) \<and>
     option_value_at_expiry ''put'' k p = max 0 (k - p)"
proof (intro conjI)
  show "get_default (req_strategy_type request) [] \<noteq> [] \<longrightarrow>
        (\<exists>res. calculate_strategy_pnl request = Inr res)"
    using calculate_strategy_pnl_Inr [OF refl _ refl _ refl _ refl refl, of request] assms
    by (auto simp: get_default_def)
next
  show "\<forall>res. calculate_strategy_pnl request = Inr res \<longrightarrow>
        length (pnl_curve res) = 50 \<and>
        price (pnl_curve res ! 0) = P * (1 - r / 100) \<and>
        price (pnl_curve res ! 49) = P * (1 + r / 100) \<and>
        (\<forall>i<50. price (pnl_curve res ! i) =
            P * (1 - r / 100) + real i * ((P * (1 + r / 100) - P * (1 - r / 100)) / 49)) \<and>
        initial_cost res =
          (\<Sum>l\<leftarrow>ls. get_default (leg_price l) 0 * get_default (leg_quantity l) 0 * 100) \<and>
        (\<forall>pt\<in>set (pnl_curve res). pnl pt =
            - initial_cost res +
            (\<Sum>l\<leftarrow>ls. option_value_at_expiry (get_default (leg_option_type l) [])
                        (get_default (leg_strike l) 0) (price pt)
                      * get_default (leg_quantity l) 0 * 100)) \<and>
        max_profit res = Max (pnl ` set (pnl_curve res)) \<and>
        max_loss res = Min (pnl ` set (pnl_curve res))"
  proof (rule allI, rule impI, intro conjI)
  fix res
  assume ok: "calculate_strategy_pnl request = Inr res"
  define c where "c = curve_of ls (initial_cost_of ls) (linspace (P * (1 - r / 100)) (P * (1 + r / 100)) 50)"
  have s: "get_default (req_strategy_type request) [] \<noteq> []"
    using ok calculate_strategy_pnl_Inl [of request] by auto
  have u: "get_default (req_underlying_price request) 0 = P"
    and l: "get_default (req_legs request) [] = ls"
    using assms by (simp_all add: get_default_def)
  obtain bes where res: "res = \<lparr>strategy_type = get_default (req_strategy_type request) [],
        underlying_price = P, pnl_curve = c,
        max_profit = Max (set (map pnl c)), max_loss = Min (set (map pnl c)),
        breakeven_points = bes, initial_cost = initial_cost_of ls\<rparr>"
    using calculate_strategy_pnl_Inr [OF refl s u [symmetric] _ l [symmetric] assms(4) assms(5) c_def] ok assms(2)
    by auto
  show "length (pnl_curve res) = 50"
    by (simp add: res c_def curve_of_def length_linspace)
  show "price (pnl_curve res ! 0) = P * (1 - r / 100)"
    by (simp add: res c_def curve_of_def length_linspace linspace_first)
  show "price (pnl_curve res ! 49) = P * (1 + r / 100)"
    by (simp add: res c_def curve_of_def length_linspace linspace_last)
  show "\<forall>i<50. price (pnl_curve res ! i) =
            P * (1 - r / 100) + real i * ((P * (1 + r / 100) - P * (1 - r / 100)) / 49)"
    by (simp add: res c_def curve_of_def length_linspace nth_linspace)
  show "initial_cost res =
          (\<Sum>l\<leftarrow>ls. get_default (leg_price l) 0 * get_default (leg_quantity l) 0 * 100)"
    by (simp add: res initial_cost_of_sum)
  show "\<forall>pt\<in>set (pnl_curve res). pnl pt =
            - initial_cost res +
            (\<Sum>l\<leftarrow>ls. option_value_at_expiry (get_default (leg_option_type l) [])
                        (get_default (leg_strike l) 0) (price pt)
                      * get_default (leg_quantity l) 0 * 100)"
    by (auto simp add: res c_def curve_of_def total_pnl_sum)
  show "max_profit res = Max (pnl ` set (pnl_curve res))"
    by (simp add: res)
  show "max_loss res = Min (pnl ` set (pnl_curve res))"
    by (simp add: res)
  qed
next
  show "option_value_at_expiry ''call'' k p = max 0 (p - k)"
    by (simp add: option_value_at_expiry_def)
next
  show "option_value_at_expiry ''put'' k p = max 0 (k - p)"
    by (simp add: option_value_at_expiry_def)
qed

theorem payoff_curve_samples_witness:
  "\<exists>res. calculate_strategy_pnl long_call_request = Inr res \<and>
         length (pnl_curve res) = 50 \<and>
         price (pnl_curve res ! 0) = 80 \<and>
         price (pnl_curve res ! 49) = 120 \<and>
         price (pnl_curve res ! 1) = 80 + 40 / 49 \<and>
         initial_cost res = 200"
proof -
  have h1: "req_underlying_price long_call_request = Some 100"
    and h3: "req_legs long_call_request = Some [long_call_leg]"
    and h5: "(20::real) = get_default (req_price_range_pct long_call_request) 20"
    by (simp_all add: long_call_request_def get_default_def)
  have h2: "(0::real) < 100" and h4: "[long_call_leg] \<noteq> []"
    by simp_all
  note t = payoff_curve_samples [OF h1 h2 h3 h4 h5]
  have "get_default (req_strategy_type long_call_request) [] \<noteq> []"
    by (simp add: long_call_request_def get_default_def)
  with t obtain res where r: "calculate_strategy_pnl long_call_request = Inr res"
    by blast
  with t have "length (pnl_curve res) = 50 \<and>
         price (pnl_curve res ! 0) = 80 \<and>
         price (pnl_curve res ! 49) = 120 \<and>
         price (pnl_curve res ! 1) = 80 + 40 / 49 \<and>
         initial_cost res = 200"
    by (simp add: long_call_leg_def get_default_def)
  with r show ?thesis by blast
qed


lemma long_call_evaluated:
  "map_sum id (\<lambda>res. (initial_cost res, breakeven_points res))
     (calculate_strategy_pnl long_call_request) = Inr (200, [102])"
  by code_simp

text \<open>
  Claim C4. For the single long call (strike 100, entry price 2, quantity 1) at underlying
  100 with the default range of 20 percent, \<^verbatim>\<open>total_pnl\<close> is \<open>-200\<close> at the price 100 and
  \<open>800\<close> at the price 110, and the breakeven points that the engine returns contain a value
  within the sampling step \<open>40/49\<close> of 102; on the reals the only breakeven point is 102
  itself.
\<close>

theorem long_call_example:
  "total_pnl [long_call_leg] (initial_cost_of [long_call_leg]) 100 = - 200 \<and>
   total_pnl [long_call_leg] (initial_cost_of [long_call_leg]) 110 = 800 \<and>
   (\<exists>res. calculate_strategy_pnl long_call_request = Inr res \<and>
          initial_cost res = 200 \<and>
          breakeven_points res = [102] \<and>
          (\<exists>b. b \<in> set (breakeven_points res) \<and> \<bar>b - 102\<bar> \<le> 40 / 49))"
proof (intro conjI)
  show "total_pnl [long_call_leg] (initial_cost_of [long_call_leg]) 100 = - 200"
    by (simp add: total_pnl_def initial_cost_of_def long_call_leg_def get_default_def
        option_value_at_expiry_def)
  show "total_pnl [long_call_leg] (initial_cost_of [long_call_leg]) 110 = 800"
    by (simp add: total_pnl_def initial_cost_of_def long_call_leg_def get_default_def
        option_value_at_expiry_def)
  obtain res where r: "calculate_strategy_pnl long_call_request = Inr res"
    and b: "breakeven_points res = [102]" and "initial_cost res = 200"
    using long_call_evaluated by (cases "calculate_strategy_pnl long_call_request") auto
  then show "\<exists>res. calculate_strategy_pnl long_call_request = Inr res \<and>
          initial_cost res = 200 \<and>
          breakeven_points res = [102] \<and>
          (\<exists>b. b \<in> set (breakeven_points res) \<and> \<bar>b - 102\<bar> \<le> 40 / 49)"
    by simp
qed

text \<open>
  Claim C7, as stated, fails in both directions. A negative underlying price is truthy, so
  a request with the price \<open>-100\<close> is computed and no error is signalled; and a strategy
  type that is present but empty is falsy, so a request with a positive price and a leg is
  refused.
\<close>

theorem invalid_request_counterexample:
  "req_strategy_type negative_price_request = Some ''long_call'' \<and>
   req_underlying_price negative_price_request = Some (- 100) \<and>
   req_legs negative_price_request = Some [long_call_leg] \<and>
   calculate_strategy_pnl negative_price_request \<noteq> Inl MissingRequiredParameters \<and>
   req_strategy_type empty_strategy_request = Some [] \<and>
   req_underlying_price empty_strategy_request = Some 100 \<and>
   req_legs empty_strategy_request = Some [long_call_leg] \<and>
   calculate_strategy_pnl empty_strategy_request = Inl MissingRequiredParameters"
proof -
  have "\<exists>res. calculate_strategy_pnl negative_price_request = Inr res"
    using calculate_strategy_pnl_Inr [OF refl _ refl _ refl _ refl refl, of negative_price_request]
    by (auto simp: negative_price_request_def get_default_def)
  moreover have "calculate_strategy_pnl empty_strategy_request = Inl MissingRequiredParameters"
    by (rule calculate_strategy_pnl_Inl) (simp add: empty_strategy_request_def get_default_def)
  ultimately show ?thesis
    by (auto simp: negative_price_request_def empty_strategy_request_def)
qed

text \<open>
  Claim C7, amended. The engine signals the error "Missing required parameters" exactly
  when the strategy type is missing or empty, or the underlying price is missing or equal
  to 0, or the list of legs is missing or empty; when it does, it returns no result (no
  curve, no breakeven points, no scalars). With a strategy type that is present and not
  empty, an underlying price that is present and not 0 (a negative one included) and a
  list of legs that is not empty, that error is not signalled.
\<close>

theorem invalid_request_iff:
  "(calculate_strategy_pnl request = Inl MissingRequiredParameters) =
     (req_strategy_type request = None \<or> req_strategy_type request = Some [] \<or>
      req_underlying_price request = None \<or> req_underlying_price request = Some 0 \<or>
      req_legs request = None \<or> req_legs request = Some []) \<and>
   (req_strategy_type request = None \<or> req_strategy_type request = Some [] \<or>
    req_underlying_price request = None \<or> req_underlying_price request = Some 0 \<or>
    req_legs request = None \<or> req_legs request = Some [] \<longrightarrow>
      (\<forall>res. calculate_strategy_pnl request \<noteq> Inr res))"
proof -
  let ?missing = "req_strategy_type request = None \<or> req_strategy_type request = Some [] \<or>
      req_underlying_price request = None \<or> req_underlying_price request = Some 0 \<or>
      req_legs request = None \<or> req_legs request = Some []"
  let ?falsy = "get_default (req_strategy_type request) [] = [] \<or>
   get_default (req_underlying_price request) 0 = 0 \<or>
   get_default (req_legs request) [] = []"
  have eq: "?missing = ?falsy"
    by (auto simp: get_default_def split: option.splits)
  show ?thesis
  proof (cases ?falsy)
    case True
    then show ?thesis
      using calculate_strategy_pnl_Inl [of request] eq by auto
  next
    case False
    then have "\<exists>res. calculate_strategy_pnl request = Inr res"
      using calculate_strategy_pnl_Inr [OF refl _ refl _ refl _ refl refl, of request] by auto
    then have "calculate_strategy_pnl request \<noteq> Inl MissingRequiredParameters"
      by auto
    then show ?thesis
      using False eq by auto
  qed
qed

theorem invalid_request_iff_witness:
  "calculate_strategy_pnl empty_strategy_request = Inl MissingRequiredParameters \<and>
   (\<forall>res. calculate_strategy_pnl empty_strategy_request \<noteq> Inr res) \<and>
   calculate_strategy_pnl negative_price_request \<noteq> Inl MissingRequiredParameters"
proof -
  have e: "req_strategy_type empty_strategy_request = Some []"
    by (simp add: empty_strategy_request_def)
  have n: "\<not> (req_strategy_type negative_price_request = None \<or>
      req_strategy_type negative_price_request = Some [] \<or>
      req_underlying_price negative_price_request = None \<or>
      req_underlying_price negative_price_request = Some 0 \<or>
      req_legs negative_price_request = None \<or> req_legs negative_price_request = Some [])"
    by (simp add: negative_price_request_def)
  from invalid_request_iff [of empty_strategy_request] e
  have a: "calculate_strategy_pnl empty_strategy_request = Inl MissingRequiredParameters"
    and b: "\<forall>res. calculate_strategy_pnl empty_strategy_request \<noteq> Inr res"
    by blast+
  from invalid_request_iff [of negative_price_request] n
  have c: "calculate_strategy_pnl negative_price_request \<noteq> Inl MissingRequiredParameters"
    by blast
  from a b c show ?thesis by blast
qed

lemma breakeven_scan_eq:
  "breakeven_scan c =
     Inr (concat (map (\<lambda>(a, b).
            if ((pnl a \<le> 0 \<and> pnl b \<ge> 0) \<or> (pnl a \<ge> 0 \<and> pnl b \<le> 0)) \<and> pnl b \<noteq> pnl a
            then [price a + (price b - price a) * (- pnl a) / (pnl b - pnl a)] else [])
          (zip c (tl c))))"
  by (induction c rule: breakeven_scan.induct) (auto simp: py_truediv_def sign_change_def)

lemma breakeven_points_scan:
  assumes "calculate_strategy_pnl request = Inr res"
  shows "breakeven_scan (pnl_curve res) = Inr (breakeven_points res)"
proof -
  have "\<not> (get_default (req_strategy_type request) [] = [] \<or>
            get_default (req_underlying_price request) 0 = 0 \<or>
            get_default (req_legs request) [] = [])"
    using assms calculate_strategy_pnl_Inl [of request] by auto
  then show ?thesis
    using calculate_strategy_pnl_Inr [OF refl _ refl _ refl _ refl refl, of request] assms
    by auto
qed

text \<open>
  Claim C8. The breakeven points that the engine returns are the scan of the curve that it
  returns. On every curve the scan returns a list and never divides by zero: for the
  adjacent pairs in order, it holds the linearly interpolated root
  \<open>p1 + (p2 - p1) * (-pnl1) / (pnl2 - pnl1)\<close> of every pair with \<open>pnl1 \<le> 0 \<le> pnl2\<close> or
  \<open>pnl1 \<ge> 0 \<ge> pnl2\<close> (the P&L changes sign or touches zero) and \<open>pnl2 \<noteq> pnl1\<close>, and
  nothing for any other pair; two adjacent samples of equal P&L, in particular two zero
  samples, give no entry.
\<close>

theorem breakeven_scan_interpolates:
  "breakeven_scan c =
     Inr (concat (map (\<lambda>(a, b).
            if ((pnl a \<le> 0 \<and> pnl b \<ge> 0) \<or> (pnl a \<ge> 0 \<and> pnl b \<le> 0)) \<and> pnl b \<noteq> pnl a
            then [price a + (price b - price a) * (- pnl a) / (pnl b - pnl a)] else [])
          (zip c (tl c)))) \<and>
   (\<forall>res. calculate_strategy_pnl request = Inr res \<longrightarrow>
      breakeven_scan (pnl_curve res) = Inr (breakeven_points res)) \<and>
   breakeven_scan [\<lparr>price = p1, pnl = v\<rparr>, \<lparr>price = p2, pnl = v\<rparr>] = Inr [] \<and>
   breakeven_scan [\<lparr>price = p1, pnl = 0\<rparr>, \<lparr>price = p2, pnl = 0\<rparr>] = Inr []"
proof (intro conjI)
  show "breakeven_scan c =
     Inr (concat (map (\<lambda>(a, b).
            if ((pnl a \<le> 0 \<and> pnl b \<ge> 0) \<or> (pnl a \<ge> 0 \<and> pnl b \<le> 0)) \<and> pnl b \<noteq> pnl a
            then [price a + (price b - price a) * (- pnl a) / (pnl b - pnl a)] else [])
          (zip c (tl c))))"
    by (rule breakeven_scan_eq)
  show "\<forall>res. calculate_strategy_pnl request = Inr res \<longrightarrow>
      breakeven_scan (pnl_curve res) = Inr (breakeven_points res)"
    by (simp add: breakeven_points_scan)
  show "breakeven_scan [\<lparr>price = p1, pnl = v\<rparr>, \<lparr>price = p2, pnl = v\<rparr>] = Inr []"
    by simp
  show "breakeven_scan [\<lparr>price = p1, pnl = 0\<rparr>, \<lparr>price = p2, pnl = 0\<rparr>] = Inr []"
    by simp
qed

theorem breakeven_scan_interpolates_witness:
  "breakeven_scan example_curve = Inr [1 / 2, 2, 3] \<and>
   (\<exists>res. calculate_strategy_pnl long_call_request = Inr res \<and>
          breakeven_scan (pnl_curve res) = Inr [102])"
proof -
  note t = breakeven_scan_interpolates [of example_curve long_call_request 0 0 1]
  from t have "breakeven_scan example_curve =
     Inr (concat (map (\<lambda>(a, b).
            if ((pnl a \<le> 0 \<and> pnl b \<ge> 0) \<or> (pnl a \<ge> 0 \<and> pnl b \<le> 0)) \<and> pnl b \<noteq> pnl a
            then [price a + (price b - price a) * (- pnl a) / (pnl b - pnl a)] else [])
          (zip example_curve (tl example_curve))))"
    by (rule conjunct1)
  also have "\<dots> = Inr [1 / 2, 2, 3]"
    by (simp add: example_curve_def)
  finally have a: "breakeven_scan example_curve = Inr [1 / 2, 2, 3]" .
  obtain res where r: "calculate_strategy_pnl long_call_request = Inr res"
    and b: "breakeven_points res = [102]"
    using long_call_evaluated by (cases "calculate_strategy_pnl long_call_request") auto
  from t r have "breakeven_scan (pnl_curve res) = Inr (breakeven_points res)"
    by blast
  with b have "breakeven_scan (pnl_curve res) = Inr [102]"
    by simp
  with a r show ?thesis by blast
qed





section \<open>Properties of the exposure aggregation\<close>

lemma set_fst_group_add: "fst ` set (group_add k v t) = insert k (fst ` set t)"
  by (induction k v t rule: group_add.induct) auto

lemma sorted_group_add:
  "sorted_wrt (<) (map fst t) \<Longrightarrow> sorted_wrt (<) (map fst (group_add k v t))"
  by (induction k v t rule: group_add.induct) (auto simp: set_fst_group_add)

lemma sum_group_add: "sum_list (map snd (group_add k v t)) = sum_list (map snd t) + v"
  by (induction k v t rule: group_add.induct) auto

lemma map_of_group_add:
  "sorted_wrt (<) (map fst t) \<Longrightarrow>
   map_of (group_add k v t) q =
     (if q = k then Some (get_default (map_of t k) 0 + v) else map_of t q)"
proof (induction k v t rule: group_add.induct)
  case (1 k v)
  then show ?case by (simp add: get_default_def)
next
  case (2 k v k' s rest)
  have "map_of rest k = None" if "k < k'"
  proof -
    have "k \<notin> fst ` set rest" using 2(2) that by auto
    then show ?thesis by (simp add: map_of_eq_None_iff)
  qed
  with 2 show ?case
    by (auto simp: get_default_def)
qed

lemma fold_group_add_keys:
  "fst ` set (fold (\<lambda>(k, v) table. group_add k v table) rows t) = fst ` set rows \<union> fst ` set t"
  by (induction rows arbitrary: t) (auto simp: set_fst_group_add split: prod.splits)

lemma fold_group_add_sorted:
  "sorted_wrt (<) (map fst t) \<Longrightarrow>
   sorted_wrt (<) (map fst (fold (\<lambda>(k, v) table. group_add k v table) rows t))"
  by (induction rows arbitrary: t) (auto simp: sorted_group_add split: prod.splits)

lemma fold_group_add_sum:
  "sum_list (map snd (fold (\<lambda>(k, v) table. group_add k v table) rows t)) =
   sum_list (map snd t) + sum_list (map snd rows)"
  by (induction rows arbitrary: t) (auto simp: sum_group_add split: prod.splits)

lemma fold_group_add_map_of:
  "sorted_wrt (<) (map fst t) \<Longrightarrow>
   map_of (fold (\<lambda>(k, v) table. group_add k v table) rows t) q =
     (if q \<in> fst ` set rows \<union> fst ` set t
      then Some (get_default (map_of t q) 0 + sum_list (map snd (filter (\<lambda>r. fst r = q) rows)))
      else None)"
proof (induction rows arbitrary: t)
  case Nil
  then show ?case
    by (auto simp: get_default_def map_of_eq_None_iff split: option.splits)
next
  case (Cons r rows)
  obtain k v where r: "r = (k, v)" by (cases r)
  have s: "sorted_wrt (<) (map fst (group_add k v t))"
    using Cons.prems by (rule sorted_group_add)
  show ?case
    using Cons.IH [OF s] Cons.prems
    by (auto simp: r map_of_group_add set_fst_group_add get_default_def)
qed

lemma groupby_sum_sorted: "sorted_wrt (<) (map fst (groupby_sum rows))"
  unfolding groupby_sum_def by (rule fold_group_add_sorted) simp

lemma groupby_sum_keys: "set (map fst (groupby_sum rows)) = fst ` set rows"
  unfolding groupby_sum_def by (simp add: fold_group_add_keys)

lemma groupby_sum_total: "sum_list (map snd (groupby_sum rows)) = sum_list (map snd rows)"
  unfolding groupby_sum_def by (simp add: fold_group_add_sum)

lemma groupby_sum_nth:
  assumes "i < length (groupby_sum rows)"
  shows "snd (groupby_sum rows ! i) =
         sum_list (map snd (filter (\<lambda>r. fst r = fst (groupby_sum rows ! i)) rows))"
proof -
  let ?t = "groupby_sum rows"
  have d: "distinct (map fst ?t)"
    using groupby_sum_sorted [of rows] by (simp add: strict_sorted_iff)
  have "?t ! i \<in> set ?t" using assms by simp
  then have "(fst (?t ! i), snd (?t ! i)) \<in> set ?t" by simp
  then have "map_of ?t (fst (?t ! i)) = Some (snd (?t ! i))"
    using d by (simp only: map_of_eq_Some_iff)
  moreover have "map_of ?t (fst (?t ! i)) =
     (if fst (?t ! i) \<in> fst ` set rows
      then Some (sum_list (map snd (filter (\<lambda>r. fst r = fst (?t ! i)) rows))) else None)"
    unfolding groupby_sum_def
    using fold_group_add_map_of [of "[]" rows] by (simp add: get_default_def)
  ultimately show ?thesis by (auto split: if_splits)
qed

lemma example_chain_gex_rows:
  "gex_options_list example_chain =
     Inr [\<lparr>gex_row_strike = 105, gex_row_option_type = ''call'', gex_row_gamma = 0.02,
           gex_row_open_interest = 10, gex_row_volume = 5\<rparr>,
          \<lparr>gex_row_strike = 100, gex_row_option_type = ''put'', gex_row_gamma = 0.05,
           gex_row_open_interest = 20, gex_row_volume = 0\<rparr>,
          \<lparr>gex_row_strike = 100, gex_row_option_type = ''call'', gex_row_gamma = 0,
           gex_row_open_interest = 0, gex_row_volume = 0\<rparr>]"
  by (simp add: example_chain_def has_greeks_def gex_option_data_def subscript_def
      get_default_def)

lemma example_chain_dex_rows:
  "dex_options_list example_chain =
     Inr [\<lparr>dex_row_strike = 105, dex_row_option_type = ''call'', dex_row_delta = 0.4,
           dex_row_open_interest = 10\<rparr>,
          \<lparr>dex_row_strike = 100, dex_row_option_type = ''put'', dex_row_delta = - 0.5,
           dex_row_open_interest = 20\<rparr>,
          \<lparr>dex_row_strike = 100, dex_row_option_type = ''call'', dex_row_delta = 0.5,
           dex_row_open_interest = 0\<rparr>]"
  by (simp add: example_chain_def has_greeks_def dex_option_data_def subscript_def
      get_default_def)

lemma series_sum_sum_list: "series_sum xs = sum_list xs"
  by (simp add: series_sum_def fold_add_sum_list)

lemma calculate_gex_Inr:
  assumes "options payload = OptionsDict (Some es)"
    and "gex_options_list es = Inr rows" and "rows \<noteq> []"
  shows "calculate_gex payload =
           Inr \<lparr>gex_strikes = map fst (gex_by_strike rows),
                gex_values = map snd (gex_by_strike rows),
                total_gex = sum_list (map snd (gex_by_strike rows))\<rparr>"
  using assms by (simp add: calculate_gex_def subscript_def Let_def series_sum_sum_list)

lemma calculate_dex_Inr:
  assumes "options payload = OptionsDict (Some es)"
    and "dex_options_list es = Inr rows" and "rows \<noteq> []"
  shows "calculate_dex payload =
           Inr \<lparr>dex_strikes = map fst (dex_by_strike rows),
                dex_values = map snd (dex_by_strike rows),
                total_dex = sum_list (map snd (dex_by_strike rows))\<rparr>"
  using assms by (simp add: calculate_dex_def subscript_def Let_def series_sum_sum_list)

lemma filter_fst_map:
  "map snd (filter (\<lambda>r. fst r = q) (map (\<lambda>row. (f row, g row)) rows)) =
   map g (filter (\<lambda>row. f row = q) rows)"
  by (induction rows) auto

text \<open>
  Claim C2. When the payload holds a list of entries whose kept contracts \<open>rows\<close> are not
  empty, \<^verbatim>\<open>calculate_gex\<close> returns a result: the strikes are strictly ascending (so each
  appears once) and are the strikes of the contracts, the value at a strike is the sum over
  the contracts of that strike of \<open>gamma * open_interest * 100 * sign\<close> with the sign
  \<open>+1\<close> for a call and \<open>-1\<close> for a put, and the total is the sum of the values per
  strike, which is the sum over all kept contracts.
\<close>

theorem gex_per_strike:
  assumes "options payload = OptionsDict (Some es)"
    and "gex_options_list es = Inr rows" and "rows \<noteq> []"
  shows "(\<exists>res. calculate_gex payload = Inr res \<and>
            sorted_wrt (<) (gex_strikes res) \<and>
            set (gex_strikes res) = gex_row_strike ` set rows \<and>
            length (gex_values res) = length (gex_strikes res) \<and>
            (\<forall>i<length (gex_strikes res).
               gex_values res ! i =
                 (\<Sum>row\<leftarrow>filter (\<lambda>row. gex_row_strike row = gex_strikes res ! i) rows.
                    gex_row_gamma row * gex_row_open_interest row * 100
                      * gex_sign (gex_row_option_type row))) \<and>
            total_gex res = sum_list (gex_values res) \<and>
            total_gex res =
              (\<Sum>row\<leftarrow>rows. gex_row_gamma row * gex_row_open_interest row * 100
                             * gex_sign (gex_row_option_type row))) \<and>
         gex_sign ''call'' = 1 \<and> gex_sign ''put'' = - 1"
proof (intro conjI exI)
  let ?t = "gex_by_strike rows"
  let ?res = "\<lparr>gex_strikes = map fst ?t, gex_values = map snd ?t,
               total_gex = sum_list (map snd ?t)\<rparr>"
  show "calculate_gex payload = Inr ?res"
    using assms by (rule calculate_gex_Inr)
  show "sorted_wrt (<) (gex_strikes ?res)"
    by (simp add: gex_by_strike_def groupby_sum_sorted)
  show "set (gex_strikes ?res) = gex_row_strike ` set rows"
    using groupby_sum_keys [of "map (\<lambda>row. (gex_row_strike row, gex row)) rows"]
    by (simp add: gex_by_strike_def image_image)
  show "length (gex_values ?res) = length (gex_strikes ?res)"
    by simp
  show "\<forall>i<length (gex_strikes ?res).
               gex_values ?res ! i =
                 (\<Sum>row\<leftarrow>filter (\<lambda>row. gex_row_strike row = gex_strikes ?res ! i) rows.
                    gex_row_gamma row * gex_row_open_interest row * 100
                      * gex_sign (gex_row_option_type row))"
    using groupby_sum_nth [of _ "map (\<lambda>row. (gex_row_strike row, gex row)) rows"]
    by (simp add: gex_by_strike_def filter_fst_map gex_def)
  show "total_gex ?res = sum_list (gex_values ?res)"
    by simp
  show "total_gex ?res =
              (\<Sum>row\<leftarrow>rows. gex_row_gamma row * gex_row_open_interest row * 100
                             * gex_sign (gex_row_option_type row))"
    by (simp add: gex_by_strike_def groupby_sum_total comp_def gex_def)
  show "gex_sign ''call'' = 1" and "gex_sign ''put'' = - 1"
    by (simp_all add: gex_sign_def)
qed

theorem gex_per_strike_witness:
  "\<exists>res. calculate_gex example_payload = Inr res \<and>
         sorted_wrt (<) (gex_strikes res) \<and>
         set (gex_strikes res) = {100, 105} \<and>
         total_gex res = - 80"
proof -
  have h1: "options example_payload = OptionsDict (Some example_chain)"
    by (simp add: example_payload_def)
  have h3: "[\<lparr>gex_row_strike = 105, gex_row_option_type = ''call'', gex_row_gamma = 0.02,
           gex_row_open_interest = 10, gex_row_volume = 5\<rparr>,
          \<lparr>gex_row_strike = 100, gex_row_option_type = ''put'', gex_row_gamma = 0.05,
           gex_row_open_interest = 20, gex_row_volume = 0\<rparr>,
          \<lparr>gex_row_strike = 100, gex_row_option_type = ''call'', gex_row_gamma = 0,
           gex_row_open_interest = 0, gex_row_volume = 0\<rparr>] \<noteq> []"
    by simp
  from gex_per_strike [OF h1 example_chain_gex_rows h3]
  obtain res where r: "calculate_gex example_payload = Inr res"
    and s: "sorted_wrt (<) (gex_strikes res)"
    and k: "set (gex_strikes res) = gex_row_strike ` set
         [\<lparr>gex_row_strike = 105, gex_row_option_type = ''call'', gex_row_gamma = 0.02,
           gex_row_open_interest = 10, gex_row_volume = 5\<rparr>,
          \<lparr>gex_row_strike = 100, gex_row_option_type = ''put'', gex_row_gamma = 0.05,
           gex_row_open_interest = 20, gex_row_volume = 0\<rparr>,
          \<lparr>gex_row_strike = 100, gex_row_option_type = ''call'', gex_row_gamma = 0,
           gex_row_open_interest = 0, gex_row_volume = 0\<rparr>]"
    and t: "total_gex res = (\<Sum>row\<leftarrow>
         [\<lparr>gex_row_strike = 105, gex_row_option_type = ''call'', gex_row_gamma = 0.02,
           gex_row_open_interest = 10, gex_row_volume = 5\<rparr>,
          \<lparr>gex_row_strike = 100, gex_row_option_type = ''put'', gex_row_gamma = 0.05,
           gex_row_open_interest = 20, gex_row_volume = 0\<rparr>,
          \<lparr>gex_row_strike = 100, gex_row_option_type = ''call'', gex_row_gamma = 0,
           gex_row_open_interest = 0, gex_row_volume = 0\<rparr>].
         gex_row_gamma row * gex_row_open_interest row * 100
           * gex_sign (gex_row_option_type row))"
    by blast
  from k have k': "set (gex_strikes res) = {100, 105}"
    by (simp add: insert_commute)
  from t have t': "total_gex res = - 80"
    by (simp add: gex_sign_def)
  from r s k' t' show ?thesis by blast
qed

text \<open>
  Claim C3. When the payload holds a list of entries whose kept contracts \<open>rows\<close> are not
  empty, \<^verbatim>\<open>calculate_dex\<close> returns a result: the strikes are strictly ascending and are
  the strikes of the contracts, the value at a strike is the sum over the contracts of that
  strike of \<open>delta * open_interest * 100\<close>, with no sign for the option type, and the total
  is the sum of the values per strike, which is the sum over all kept contracts.
\<close>

theorem dex_per_strike:
  assumes "options payload = OptionsDict (Some es)"
    and "dex_options_list es = Inr rows" and "rows \<noteq> []"
  shows "\<exists>res. calculate_dex payload = Inr res \<and>
            sorted_wrt (<) (dex_strikes res) \<and>
            set (dex_strikes res) = dex_row_strike ` set rows \<and>
            length (dex_values res) = length (dex_strikes res) \<and>
            (\<forall>i<length (dex_strikes res).
               dex_values res ! i =
                 (\<Sum>row\<leftarrow>filter (\<lambda>row. dex_row_strike row = dex_strikes res ! i) rows.
                    dex_row_delta row * dex_row_open_interest row * 100)) \<and>
            total_dex res = sum_list (dex_values res) \<and>
            total_dex res =
              (\<Sum>row\<leftarrow>rows. dex_row_delta row * dex_row_open_interest row * 100)"
proof (intro conjI exI)
  let ?t = "dex_by_strike rows"
  let ?res = "\<lparr>dex_strikes = map fst ?t, dex_values = map snd ?t,
               total_dex = sum_list (map snd ?t)\<rparr>"
  show "calculate_dex payload = Inr ?res"
    using assms by (rule calculate_dex_Inr)
  show "sorted_wrt (<) (dex_strikes ?res)"
    by (simp add: dex_by_strike_def groupby_sum_sorted)
  show "set (dex_strikes ?res) = dex_row_strike ` set rows"
    using groupby_sum_keys [of "map (\<lambda>row. (dex_row_strike row, dex row)) rows"]
    by (simp add: dex_by_strike_def image_image)
  show "length (dex_values ?res) = length (dex_strikes ?res)"
    by simp
  show "\<forall>i<length (dex_strikes ?res).
               dex_values ?res ! i =
                 (\<Sum>row\<leftarrow>filter (\<lambda>row. dex_row_strike row = dex_strikes ?res ! i) rows.
                    dex_row_delta row * dex_row_open_interest row * 100)"
    using groupby_sum_nth [of _ "map (\<lambda>row. (dex_row_strike row, dex row)) rows"]
    by (simp add: dex_by_strike_def filter_fst_map dex_def)
  show "total_dex ?res = sum_list (dex_values ?res)"
    by simp
  show "total_dex ?res =
              (\<Sum>row\<leftarrow>rows. dex_row_delta row * dex_row_open_interest row * 100)"
    by (simp add: dex_by_strike_def groupby_sum_total comp_def dex_def)
qed

theorem dex_per_strike_witness:
  "\<exists>res. calculate_dex example_payload = Inr res \<and>
         sorted_wrt (<) (dex_strikes res) \<and>
         set (dex_strikes res) = {100, 105} \<and>
         total_dex res = - 600"
proof -
  have h1: "options example_payload = OptionsDict (Some example_chain)"
    by (simp add: example_payload_def)
  have h3: "[\<lparr>dex_row_strike = 105, dex_row_option_type = ''call'', dex_row_delta = 0.4,
           dex_row_open_interest = 10\<rparr>,
          \<lparr>dex_row_strike = 100, dex_row_option_type = ''put'', dex_row_delta = - 0.5,
           dex_row_open_interest = 20\<rparr>,
          \<lparr>dex_row_strike = 100, dex_row_option_type = ''call'', dex_row_delta = 0.5,
           dex_row_open_interest = 0\<rparr>] \<noteq> []"
    by simp
  from dex_per_strike [OF h1 example_chain_dex_rows h3]
  obtain res where r: "calculate_dex example_payload = Inr res"
    and s: "sorted_wrt (<) (dex_strikes res)"
    and k: "set (dex_strikes res) = dex_row_strike ` set
         [\<lparr>dex_row_strike = 105, dex_row_option_type = ''call'', dex_row_delta = 0.4,
           dex_row_open_interest = 10\<rparr>,
          \<lparr>dex_row_strike = 100, dex_row_option_type = ''put'', dex_row_delta = - 0.5,
           dex_row_open_interest = 20\<rparr>,
          \<lparr>dex_row_strike = 100, dex_row_option_type = ''call'', dex_row_delta = 0.5,
           dex_row_open_interest = 0\<rparr>]"
    and t: "total_dex res = (\<Sum>row\<leftarrow>
         [\<lparr>dex_row_strike = 105, dex_row_option_type = ''call'', dex_row_delta = 0.4,
           dex_row_open_interest = 10\<rparr>,
          \<lparr>dex_row_strike = 100, dex_row_option_type = ''put'', dex_row_delta = - 0.5,
           dex_row_open_interest = 20\<rparr>,
          \<lparr>dex_row_strike = 100, dex_row_option_type = ''call'', dex_row_delta = 0.5,
           dex_row_open_interest = 0\<rparr>].
         dex_row_delta row * dex_row_open_interest row * 100)"
    by blast
  from k have k': "set (dex_strikes res) = {100, 105}"
    by (simp add: insert_commute)
  from t have t': "total_dex res = - 600"
    by simp
  from r s k' t' show ?thesis by blast
qed

lemma gex_options_list_all2:
  "gex_options_list es = Inr rows \<Longrightarrow>
   list_all2 (\<lambda>e row. gex_option_data e = Inr row) (filter has_greeks es) rows"
  by (induction es arbitrary: rows) (auto split: if_splits sum.splits)

lemma dex_options_list_all2:
  "dex_options_list es = Inr rows \<Longrightarrow>
   list_all2 (\<lambda>e row. dex_option_data e = Inr row) (filter has_greeks es) rows"
  by (induction es arbitrary: rows) (auto split: if_splits sum.splits)

lemma gex_option_data_Inr:
  assumes "opt_strike e = Some k" and "opt_option_type e = Some t"
  shows "gex_option_data e =
     Inr \<lparr>gex_row_strike = k, gex_row_option_type = t,
          gex_row_gamma = (case map_of (get_default (opt_greeks e) []) ''gamma'' of
                             None \<Rightarrow> 0 | Some g \<Rightarrow> g),
          gex_row_open_interest = (case opt_open_interest e of None \<Rightarrow> 0 | Some n \<Rightarrow> n),
          gex_row_volume = (case opt_volume e of None \<Rightarrow> 0 | Some n \<Rightarrow> n)\<rparr>"
  using assms by (simp add: gex_option_data_def subscript_def get_default_def)

lemma dex_option_data_Inr:
  assumes "opt_strike e = Some k" and "opt_option_type e = Some t"
  shows "dex_option_data e =
     Inr \<lparr>dex_row_strike = k, dex_row_option_type = t,
          dex_row_delta = (case map_of (get_default (opt_greeks e) []) ''delta'' of
                             None \<Rightarrow> 0 | Some d \<Rightarrow> d),
          dex_row_open_interest = (case opt_open_interest e of None \<Rightarrow> 0 | Some n \<Rightarrow> n)\<rparr>"
  using assms by (simp add: dex_option_data_def subscript_def get_default_def)

lemma gex_options_list_total:
  "\<forall>e\<in>set es. has_greeks e \<longrightarrow> opt_strike e \<noteq> None \<and> opt_option_type e \<noteq> None \<Longrightarrow>
   \<exists>rows. gex_options_list es = Inr rows"
  by (induction es) (auto simp: gex_option_data_Inr)

lemma dex_options_list_total:
  "\<forall>e\<in>set es. has_greeks e \<longrightarrow> opt_strike e \<noteq> None \<and> opt_option_type e \<noteq> None \<Longrightarrow>
   \<exists>rows. dex_options_list es = Inr rows"
  by (induction es) (auto simp: dex_option_data_Inr)

lemma gex_options_list_not_internal: "gex_options_list es \<noteq> Inl (InternalError m)"
  by (induction es)
     (auto simp: gex_option_data_def subscript_def split: sum.splits option.splits)

lemma dex_options_list_not_internal: "dex_options_list es \<noteq> Inl (InternalError m)"
  by (induction es)
     (auto simp: dex_option_data_def subscript_def split: sum.splits option.splits)

lemma gex_options_list_not_no_data:
  "gex_options_list es \<noteq> Inl NoOptionsData \<and> gex_options_list es \<noteq> Inl NoValidOptions"
  by (induction es)
     (auto simp: gex_option_data_def subscript_def split: sum.splits option.splits)

lemma dex_options_list_not_no_data:
  "dex_options_list es \<noteq> Inl NoOptionsData \<and> dex_options_list es \<noteq> Inl NoValidOptions"
  by (induction es)
     (auto simp: dex_option_data_def subscript_def split: sum.splits option.splits)

lemma gex_options_list_Nil_iff:
  "gex_options_list es = Inr [] \<longleftrightarrow> filter has_greeks es = []"
  by (induction es) (auto split: sum.splits)

lemma dex_options_list_Nil_iff:
  "dex_options_list es = Inr [] \<longleftrightarrow> filter has_greeks es = []"
  by (induction es) (auto split: sum.splits)

lemma calculate_gex_errors:
  "(calculate_gex payload = Inl NoOptionsData) =
     (options payload = OptionsAbsent \<or> options payload = OptionsFalsy)"
  "(calculate_gex payload = Inl NoValidOptions) =
     (\<exists>es. options payload = OptionsDict (Some es) \<and> filter has_greeks es = [])"
  "calculate_gex payload \<noteq> Inl (InternalError m)"
  using gex_options_list_not_no_data gex_options_list_not_internal
  by (auto simp: calculate_gex_def subscript_def Let_def gex_options_list_Nil_iff [symmetric]
      split: options_field.splits option.splits sum.splits)

lemma calculate_dex_errors:
  "(calculate_dex payload = Inl NoOptionsData) =
     (options payload = OptionsAbsent \<or> options payload = OptionsFalsy)"
  "(calculate_dex payload = Inl NoValidOptions) =
     (\<exists>es. options payload = OptionsDict (Some es) \<and> filter has_greeks es = [])"
  "calculate_dex payload \<noteq> Inl (InternalError m)"
  using dex_options_list_not_no_data dex_options_list_not_internal
  by (auto simp: calculate_dex_def subscript_def Let_def dex_options_list_Nil_iff [symmetric]
      split: options_field.splits option.splits sum.splits)

text \<open>
  Claim C9. Both operations answer "No options data found" exactly when the payload has no
  \<^verbatim>\<open>options\<close> or a falsy one, and "No valid options with Greeks found" exactly when the
  list of entries has no entry with a non-empty greeks object; neither raises to the route
  handler. The contracts that reach the aggregation are, in order, the entries with a
  non-empty greeks object and no others; they are all kept when each of them has a strike
  and an option type; and an entry is kept with gamma (delta for DEX) and open interest 0
  when these are missing.
\<close>

theorem normalizer_keeps_greeks:
  "(calculate_gex payload = Inl NoOptionsData) =
     (options payload = OptionsAbsent \<or> options payload = OptionsFalsy) \<and>
   (calculate_gex payload = Inl NoValidOptions) =
     (\<exists>es. options payload = OptionsDict (Some es) \<and> filter has_greeks es = []) \<and>
   (calculate_dex payload = Inl NoOptionsData) =
     (options payload = OptionsAbsent \<or> options payload = OptionsFalsy) \<and>
   (calculate_dex payload = Inl NoValidOptions) =
     (\<exists>es. options payload = OptionsDict (Some es) \<and> filter has_greeks es = []) \<and>
   calculate_gex payload \<noteq> Inl (InternalError m) \<and>
   calculate_dex payload \<noteq> Inl (InternalError m) \<and>
   (\<forall>rows. gex_options_list es = Inr rows \<longrightarrow>
      list_all2 (\<lambda>e row. gex_option_data e = Inr row) (filter has_greeks es) rows) \<and>
   (\<forall>rows. dex_options_list es = Inr rows \<longrightarrow>
      list_all2 (\<lambda>e row. dex_option_data e = Inr row) (filter has_greeks es) rows) \<and>
   ((\<forall>e\<in>set es. has_greeks e \<longrightarrow> opt_strike e \<noteq> None \<and> opt_option_type e \<noteq> None) \<longrightarrow>
      (\<exists>rows. gex_options_list es = Inr rows) \<and> (\<exists>rows. dex_options_list es = Inr rows)) \<and>
   (opt_strike e = Some k \<and> opt_option_type e = Some t \<longrightarrow>
      (\<exists>row. gex_option_data e = Inr row \<and>
         gex_row_gamma row =
           (case map_of (get_default (opt_greeks e) []) ''gamma'' of None \<Rightarrow> 0 | Some g \<Rightarrow> g) \<and>
         gex_row_open_interest row =
           (case opt_open_interest e of None \<Rightarrow> 0 | Some n \<Rightarrow> n)) \<and>
      (\<exists>row. dex_option_data e = Inr row \<and>
         dex_row_delta row =
           (case map_of (get_default (opt_greeks e) []) ''delta'' of None \<Rightarrow> 0 | Some d \<Rightarrow> d) \<and>
         dex_row_open_interest row =
           (case opt_open_interest e of None \<Rightarrow> 0 | Some n \<Rightarrow> n)))"
proof (intro conjI)
  show "(calculate_gex payload = Inl NoOptionsData) =
     (options payload = OptionsAbsent \<or> options payload = OptionsFalsy)"
    by (rule calculate_gex_errors)
  show "(calculate_gex payload = Inl NoValidOptions) =
     (\<exists>es. options payload = OptionsDict (Some es) \<and> filter has_greeks es = [])"
    by (rule calculate_gex_errors)
  show "(calculate_dex payload = Inl NoOptionsData) =
     (options payload = OptionsAbsent \<or> options payload = OptionsFalsy)"
    by (rule calculate_dex_errors)
  show "(calculate_dex payload = Inl NoValidOptions) =
     (\<exists>es. options payload = OptionsDict (Some es) \<and> filter has_greeks es = [])"
    by (rule calculate_dex_errors)
  show "calculate_gex payload \<noteq> Inl (InternalError m)"
    by (rule calculate_gex_errors)
  show "calculate_dex payload \<noteq> Inl (InternalError m)"
    by (rule calculate_dex_errors)
  show "\<forall>rows. gex_options_list es = Inr rows \<longrightarrow>
      list_all2 (\<lambda>e row. gex_option_data e = Inr row) (filter has_greeks es) rows"
    by (simp add: gex_options_list_all2)
  show "\<forall>rows. dex_options_list es = Inr rows \<longrightarrow>
      list_all2 (\<lambda>e row. dex_option_data e = Inr row) (filter has_greeks es) rows"
    by (simp add: dex_options_list_all2)
  show "(\<forall>e\<in>set es. has_greeks e \<longrightarrow> opt_strike e \<noteq> None \<and> opt_option_type e \<noteq> None) \<longrightarrow>
      (\<exists>rows. gex_options_list es = Inr rows) \<and> (\<exists>rows. dex_options_list es = Inr rows)"
    using gex_options_list_total [of es] dex_options_list_total [of es] by blast
  show "opt_strike e = Some k \<and> opt_option_type e = Some t \<longrightarrow>
      (\<exists>row. gex_option_data e = Inr row \<and>
         gex_row_gamma row =
           (case map_of (get_default (opt_greeks e) []) ''gamma'' of None \<Rightarrow> 0 | Some g \<Rightarrow> g) \<and>
         gex_row_open_interest row =
           (case opt_open_interest e of None \<Rightarrow> 0 | Some n \<Rightarrow> n)) \<and>
      (\<exists>row. dex_option_data e = Inr row \<and>
         dex_row_delta row =
           (case map_of (get_default (opt_greeks e) []) ''delta'' of None \<Rightarrow> 0 | Some d \<Rightarrow> d) \<and>
         dex_row_open_interest row =
           (case opt_open_interest e of None \<Rightarrow> 0 | Some n \<Rightarrow> n))"
    by (simp add: gex_option_data_Inr dex_option_data_Inr)
qed

theorem normalizer_keeps_greeks_witness:
  "length (filter has_greeks example_chain) = 3 \<and>
   (\<exists>rows. gex_options_list example_chain = Inr rows \<and> length rows = 3) \<and>
   (\<exists>rows. dex_options_list example_chain = Inr rows \<and> length rows = 3) \<and>
   calculate_gex example_payload \<noteq> Inl NoValidOptions \<and>
   (\<exists>row. gex_option_data (example_chain ! 3) = Inr row \<and> gex_row_gamma row = 0 \<and>
          gex_row_open_interest row = 0)"
proof -
  note t = normalizer_keeps_greeks [of example_payload "[]" example_chain "example_chain ! 3" 100 "''call''"]
  have n: "length (filter has_greeks example_chain) = 3"
    by (simp add: example_chain_def has_greeks_def)
  have wf: "\<forall>e\<in>set example_chain. has_greeks e \<longrightarrow> opt_strike e \<noteq> None \<and> opt_option_type e \<noteq> None"
    by (simp add: example_chain_def)
  from t wf obtain grows drows where g: "gex_options_list example_chain = Inr grows"
    and d: "dex_options_list example_chain = Inr drows"
    by blast
  from t g have "list_all2 (\<lambda>e row. gex_option_data e = Inr row) (filter has_greeks example_chain) grows"
    by blast
  then have gl: "length grows = 3"
    using n by (simp add: list_all2_lengthD)
  from t d have "list_all2 (\<lambda>e row. dex_option_data e = Inr row) (filter has_greeks example_chain) drows"
    by blast
  then have dl: "length drows = 3"
    using n by (simp add: list_all2_lengthD)
  from t have "(calculate_gex example_payload = Inl NoValidOptions) =
     (\<exists>es. options example_payload = OptionsDict (Some es) \<and> filter has_greeks es = [])"
    by blast
  then have nv: "calculate_gex example_payload \<noteq> Inl NoValidOptions"
    using n by (auto simp: example_payload_def)
  have e3: "opt_strike (example_chain ! 3) = Some 100 \<and> opt_option_type (example_chain ! 3) = Some ''call''"
    by (simp add: example_chain_def)
  with t have "\<exists>row. gex_option_data (example_chain ! 3) = Inr row \<and>
         gex_row_gamma row =
           (case map_of (get_default (opt_greeks (example_chain ! 3)) []) ''gamma'' of None \<Rightarrow> 0 | Some g \<Rightarrow> g) \<and>
         gex_row_open_interest row =
           (case opt_open_interest (example_chain ! 3) of None \<Rightarrow> 0 | Some n \<Rightarrow> n)"
    by blast
  then have r3: "\<exists>row. gex_option_data (example_chain ! 3) = Inr row \<and> gex_row_gamma row = 0 \<and>
          gex_row_open_interest row = 0"
    by (simp add: example_chain_def get_default_def)
  from n g gl d dl nv r3 show ?thesis by blast
qed

section \<open>Properties of the backtest runner\<close>

lemma py_int_floor: "0 \<le> x \<Longrightarrow> py_int x = \<lfloor>x\<rfloor>"
  by (simp add: py_int_def)

lemma covered_call_fold:
  "fold (covered_call_step df n) idxs (cap, tr) = (cap', tr') \<Longrightarrow>
   cap' = cap + (\<Sum>i\<leftarrow>filter (\<lambda>i. i mod 30 = 0) idxs. close (df ! i) * 0.02 * real_of_int n) \<and>
   map trade_date tr' = map trade_date tr @ map (\<lambda>i. day_date (df ! i)) (filter (\<lambda>i. i mod 30 = 0) idxs) \<and>
   map trade_price tr' = map trade_price tr @ map (\<lambda>i. close (df ! i)) (filter (\<lambda>i. i mod 30 = 0) idxs) \<and>
   map trade_premium tr' = map trade_premium tr @
      map (\<lambda>i. close (df ! i) * 0.02 * real_of_int n) (filter (\<lambda>i. i mod 30 = 0) idxs)"
proof (induction idxs arbitrary: cap tr)
  case Nil
  then show ?case by simp
next
  case (Cons i idxs)
  show ?case
  proof (cases "i mod 30 = 0")
    case True
    with Cons.prems Cons.IH [of "cap + close (df ! i) * 0.02 * real_of_int n"
        "tr @ [\<lparr>trade_date = day_date (df ! i), trade_action = ''Sell Call'',
                          trade_price = close (df ! i), trade_premium = close (df ! i) * 0.02 * real_of_int n,
                          trade_capital = cap + close (df ! i) * 0.02 * real_of_int n + close (df ! i) * real_of_int n\<rparr>]"]
    show ?thesis
      by (simp add: covered_call_step_def Let_def)
  next
    case False
    with Cons.prems Cons.IH [of cap tr] show ?thesis
      by (simp add: covered_call_step_def)
  qed
qed

lemma covered_call_Inr:
  assumes "position_size_of k (close (df ! 0)) = Inr n"
  shows "\<exists>trades. covered_call df k =
     Inr (k - close (df ! 0) * real_of_int n
          + (\<Sum>i\<leftarrow>filter (\<lambda>i. i mod 30 = 0) [1..<length df]. close (df ! i) * 0.02 * real_of_int n)
          + close (df ! (length df - 1)) * real_of_int n, trades) \<and>
     map trade_date trades = map (\<lambda>i. day_date (df ! i)) (filter (\<lambda>i. i mod 30 = 0) [1..<length df]) \<and>
     map trade_price trades = map (\<lambda>i. close (df ! i)) (filter (\<lambda>i. i mod 30 = 0) [1..<length df]) \<and>
     map trade_premium trades =
       map (\<lambda>i. close (df ! i) * 0.02 * real_of_int n) (filter (\<lambda>i. i mod 30 = 0) [1..<length df])"
proof -
  obtain cap' tr' where f: "fold (covered_call_step df n) [1..<length df]
      (k - close (df ! 0) * real_of_int n, []) = (cap', tr')"
    by (cases "fold (covered_call_step df n) [1..<length df] (k - close (df ! 0) * real_of_int n, [])")
  from covered_call_fold [OF f] f assms show ?thesis
    by (simp add: covered_call_def Let_def)
qed

text \<open>
  Claim C6, as stated, fails for a negative initial capital: with the capital \<open>-50\<close> and
  the first close 100 the investment in 100 shares exceeds the capital, the floor of
  \<open>-50 / 100\<close> is \<open>-1\<close>, and the branch holds \<open>0\<close> shares, since \<^verbatim>\<open>int\<close> truncates toward
  zero; the final capital is \<open>-50\<close>.
\<close>

theorem covered_call_counterexample:
  "three_days \<noteq> [] \<and>
   close (three_days ! 0) * 100 > - 50 \<and>
   \<lfloor>- 50 / close (three_days ! 0)\<rfloor> = - 1 \<and>
   position_size_of (- 50) (close (three_days ! 0)) = Inr 0 \<and>
   covered_call three_days (- 50) = Inr (- 50, [])"
proof -
  have c: "\<lceil>- (1 / 2) :: real\<rceil> = 0"
    by (rule ceiling_unique) simp_all
  have p: "position_size_of (- 50) (close (three_days ! 0)) = Inr 0"
    by (simp add: three_days_def position_size_of_def py_int_def c)
  have "covered_call three_days (- 50) = Inr (- 50, [])"
    using p by (simp add: covered_call_def three_days_def covered_call_step_def Let_def)
  with p show ?thesis
    by (simp add: three_days_def)
qed

text \<open>
  Claim C6, amended. For every non-empty history and every initial capital for which the
  share count is computed, the Covered Call branch holds 100 shares when the capital covers
  them at the first close, and otherwise \<^verbatim>\<open>int(initial_capital / first_close)\<close> shares, the
  quotient truncated toward zero; for a non-negative capital and a positive first close that
  is the floor of the quotient, the largest number of whole shares that the capital buys.
  At every index from 1 on that is a multiple of 30 it adds the premium
  \<open>close * 0.02 * shares\<close> of that day to the cash and records a ledger entry with the date,
  the close and the premium, and the final capital is the remaining cash plus the shares at
  the last close.
\<close>

theorem covered_call_branch:
  assumes "df \<noteq> []"
    and "position_size_of initial_capital (close (df ! 0)) = Inr shares"
  shows "(\<exists>trades. covered_call df initial_capital =
            Inr (initial_capital - close (df ! 0) * real_of_int shares
                 + (\<Sum>i\<leftarrow>filter (\<lambda>i. i mod 30 = 0) [1..<length df].
                      close (df ! i) * 0.02 * real_of_int shares)
                 + close (last df) * real_of_int shares, trades) \<and>
            map trade_date trades =
              map (\<lambda>i. day_date (df ! i)) (filter (\<lambda>i. i mod 30 = 0) [1..<length df]) \<and>
            map trade_price trades =
              map (\<lambda>i. close (df ! i)) (filter (\<lambda>i. i mod 30 = 0) [1..<length df]) \<and>
            map trade_premium trades =
              map (\<lambda>i. close (df ! i) * 0.02 * real_of_int shares)
                (filter (\<lambda>i. i mod 30 = 0) [1..<length df])) \<and>
         (close (df ! 0) * 100 \<le> initial_capital \<longrightarrow> shares = 100) \<and>
         (close (df ! 0) * 100 > initial_capital \<longrightarrow>
            shares = py_int (initial_capital / close (df ! 0))) \<and>
         (close (df ! 0) * 100 > initial_capital \<and> 0 \<le> initial_capital \<and> 0 < close (df ! 0) \<longrightarrow>
            shares = \<lfloor>initial_capital / close (df ! 0)\<rfloor> \<and>
            close (df ! 0) * real_of_int shares \<le> initial_capital \<and>
            initial_capital < close (df ! 0) * real_of_int (shares + 1))"
proof (intro conjI)
  have l: "close (df ! (length df - 1)) = close (last df)"
    using assms(1) by (simp add: last_conv_nth)
  show "\<exists>trades. covered_call df initial_capital =
            Inr (initial_capital - close (df ! 0) * real_of_int shares
                 + (\<Sum>i\<leftarrow>filter (\<lambda>i. i mod 30 = 0) [1..<length df].
                      close (df ! i) * 0.02 * real_of_int shares)
                 + close (last df) * real_of_int shares, trades) \<and>
            map trade_date trades =
              map (\<lambda>i. day_date (df ! i)) (filter (\<lambda>i. i mod 30 = 0) [1..<length df]) \<and>
            map trade_price trades =
              map (\<lambda>i. close (df ! i)) (filter (\<lambda>i. i mod 30 = 0) [1..<length df]) \<and>
            map trade_premium trades =
              map (\<lambda>i. close (df ! i) * 0.02 * real_of_int shares)
                (filter (\<lambda>i. i mod 30 = 0) [1..<length df])"
    using covered_call_Inr [OF assms(2)] unfolding l .
  show "close (df ! 0) * 100 \<le> initial_capital \<longrightarrow> shares = 100"
    using assms(2) by (auto simp: position_size_of_def split: if_splits)
  show "close (df ! 0) * 100 > initial_capital \<longrightarrow>
            shares = py_int (initial_capital / close (df ! 0))"
    using assms(2) by (auto simp: position_size_of_def split: if_splits)
  show "close (df ! 0) * 100 > initial_capital \<and> 0 \<le> initial_capital \<and> 0 < close (df ! 0) \<longrightarrow>
            shares = \<lfloor>initial_capital / close (df ! 0)\<rfloor> \<and>
            close (df ! 0) * real_of_int shares \<le> initial_capital \<and>
            initial_capital < close (df ! 0) * real_of_int (shares + 1)"
  proof (intro impI)
    assume a: "close (df ! 0) * 100 > initial_capital \<and> 0 \<le> initial_capital \<and> 0 < close (df ! 0)"
    let ?c = "close (df ! 0)"
    have s: "shares = \<lfloor>initial_capital / ?c\<rfloor>"
      using assms(2) a by (auto simp: position_size_of_def py_int_floor split: if_splits)
    have "real_of_int shares \<le> initial_capital / ?c"
      unfolding s by (rule of_int_floor_le)
    then have lo: "?c * real_of_int shares \<le> initial_capital"
      using a by (simp add: pos_le_divide_eq mult.commute)
    have "initial_capital / ?c < real_of_int (shares + 1)"
      unfolding s by linarith
    then have hi: "initial_capital < ?c * real_of_int (shares + 1)"
      using a by (simp add: pos_divide_less_eq mult.commute)
    from s lo hi show "shares = \<lfloor>initial_capital / ?c\<rfloor> \<and>
            ?c * real_of_int shares \<le> initial_capital \<and>
            initial_capital < ?c * real_of_int (shares + 1)"
      by simp
  qed
qed

lemma sixty_one_days_facts:
  "filter (\<lambda>i. i mod 30 = 0) [1..<length sixty_one_days] = [30, 60]"
  "close (sixty_one_days ! 0) = 100"
  "close (sixty_one_days ! 30) = 130"
  "close (sixty_one_days ! 60) = 160"
  "close (last sixty_one_days) = 160"
  "sixty_one_days \<noteq> []"
  by (code_simp, code_simp, code_simp, code_simp, code_simp, code_simp)

theorem covered_call_branch_witness:
  "(\<exists>trades. covered_call sixty_one_days 250 = Inr (1908 / 5, trades) \<and>
      map trade_premium trades = [26 / 5, 32 / 5]) \<and>
   (2::int) = \<lfloor>250 / close (sixty_one_days ! 0)\<rfloor>"
proof -
  have f: "\<lfloor>5 / 2 :: real\<rfloor> = 2"
    by (rule floor_unique) simp_all
  have p: "position_size_of 250 (close (sixty_one_days ! 0)) = Inr 2"
    by (simp add: sixty_one_days_facts position_size_of_def py_int_def f)
  note t = covered_call_branch [OF sixty_one_days_facts(6) p]
  from t obtain trades where
    c: "covered_call sixty_one_days 250 =
            Inr (250 - close (sixty_one_days ! 0) * real_of_int 2
                 + (\<Sum>i\<leftarrow>filter (\<lambda>i. i mod 30 = 0) [1..<length sixty_one_days].
                      close (sixty_one_days ! i) * 0.02 * real_of_int 2)
                 + close (last sixty_one_days) * real_of_int 2, trades)"
    and m: "map trade_premium trades =
              map (\<lambda>i. close (sixty_one_days ! i) * 0.02 * real_of_int 2)
                (filter (\<lambda>i. i mod 30 = 0) [1..<length sixty_one_days])"
    by blast
  from c [unfolded sixty_one_days_facts]
  have c': "covered_call sixty_one_days 250 = Inr (1908 / 5, trades)"
    by (simp add: sixty_one_days_facts)
  from m [unfolded sixty_one_days_facts]
  have m': "map trade_premium trades = [26 / 5, 32 / 5]"
    by (simp add: sixty_one_days_facts)
  have "close (sixty_one_days ! 0) * 100 > 250 \<and> (0::real) \<le> 250 \<and> 0 < close (sixty_one_days ! 0)"
    by (simp add: sixty_one_days_facts)
  with t have fl: "(2::int) = \<lfloor>250 / close (sixty_one_days ! 0)\<rfloor>"
    by blast
  show ?thesis
  proof (intro conjI exI)
    show "covered_call sixty_one_days 250 = Inr (1908 / 5, trades)" by (rule c')
    show "map trade_premium trades = [26 / 5, 32 / 5]" by (rule m')
    show "(2::int) = \<lfloor>250 / close (sixty_one_days ! 0)\<rfloor>" by (rule fl)
  qed
qed

lemma three_days_covered_call: "covered_call three_days 10000 = Inr (9900, [])"
  by (simp add: covered_call_def three_days_def position_size_of_def covered_call_step_def Let_def)

lemma three_days_returns: "daily_returns (map close three_days) = Some [1 / 10, - (1 / 10)]"
  by (simp add: three_days_def)

lemma std_example: "std [1 / 10, - (1 / 10)] = Some (sqrt (1 / 50))"
  by (simp add: std_def mean_def power2_eq_square)

text \<open>
  Claim C5, evaluated on the code. On the closes 100, 110, 99 and the initial capital 10000
  the Covered Call run ends at 9900: the total return is \<open>-1\<close> percent, the annualized
  return \<open>-365/3\<close> percent, the daily returns are \<open>1/10\<close> and \<open>-1/10\<close> with the standard
  deviation \<open>sqrt (1/50)\<close>, and the reported Sharpe ratio is
  \<open>(annualized - 0.02) / (stdev * sqrt 252)\<close>, which is not the
  \<open>(annualized - 2.0) / (stdev * sqrt 252)\<close> of the claim.
\<close>

theorem sharpe_ratio_risk_free_rate:
  "\<exists>res. run_backtest_covered_call three_days 10000 = Inr res \<and>
         final_capital res = 9900 \<and>
         total_return_pct (bt_metrics res) = Some (- 1) \<and>
         annualized_return_pct (bt_metrics res) = Some (- 1 * (365 / 3)) \<and>
         sharpe_ratio (bt_metrics res) =
           Some ((- 1 * (365 / 3) - 0.02) / (sqrt (1 / 50) * sqrt 252)) \<and>
         sharpe_ratio (bt_metrics res) \<noteq>
           Some ((- 1 * (365 / 3) - 2.0) / (sqrt (1 / 50) * sqrt 252))"
proof -
  have ne: "three_days \<noteq> []" and len: "length three_days = 3"
    by (simp_all add: three_days_def)
  have d: "sqrt (1 / 50) * sqrt 252 \<noteq> 0"
    by simp
  have s: "sharpe (- 1 * (365 / 3)) (Some [1 / 10, - (1 / 10)]) =
             Some ((- 1 * (365 / 3) - 0.02) / (sqrt (1 / 50) * sqrt 252))"
    unfolding sharpe_def Let_def using d by (simp add: std_example)
  have m: "calculate_metrics three_days 10000 9900 =
      \<lparr>total_return_pct = Some (- 1), annualized_return_pct = Some (- 1 * (365 / 3)),
       sharpe_ratio = Some ((- 1 * (365 / 3) - 0.02) / (sqrt (1 / 50) * sqrt 252))\<rparr>"
    unfolding calculate_metrics_def Let_def three_days_returns len using s by simp
  have r: "run_backtest_covered_call three_days 10000 =
      Inr \<lparr>bt_initial_capital = 10000, final_capital = 9900, trade_history = [],
           bt_metrics = calculate_metrics three_days 10000 9900\<rparr>"
    using ne by (simp add: run_backtest_covered_call_def three_days_covered_call)
  have neq: "(- 1 * (365 / 3) - 0.02) / (sqrt (1 / 50) * sqrt 252) \<noteq>
             (- 1 * (365 / 3) - 2.0) / (sqrt (1 / 50) * sqrt 252 :: real)"
    using d by (simp only: divide_cancel_right) simp
  show ?thesis
    unfolding r m using neq by simp
qed

end
